theory Spec2Isabelle
  imports Main
begin

section \<open>Context values of package shttp\<close>

text \<open>
  The package stores everything it knows about a request in a Go \<^verbatim>\<open>context.Context\<close>.
  A context is an immutable chain: \<^verbatim>\<open>context.Background()\<close> at the root and one link per
  \<^verbatim>\<open>context.WithValue(parent, key, val)\<close>. \<^verbatim>\<open>ctx.Value(key)\<close> walks the chain from the
  newest link and returns the value of the first link whose key equals \<^verbatim>\<open>key\<close>, or the nil
  interface when there is none.

  Keys are compared as interface values: two keys are equal when their dynamic types are
  the same and their values are equal. Every key of this package is a variable of an empty
  struct type, and an empty struct type has a single value, so a key is determined by its
  type. \<open>ForeignKey\<close> stands for the keys of other packages.
\<close>

datatype key = ctxKeyType | abortContextType | startupContextType | ForeignKey nat

text \<open>
  \<^verbatim>\<open>abortValueType\<close> (part_000, lines 14 to 18); the context holds a pointer to it, which
  may be a typed nil pointer.
\<close>

record abortValueType =
  status :: int
  reason :: string
  redirect :: bool

text \<open>
  The dynamic values an \<^verbatim>\<open>any\<close> may hold, as far as the package distinguishes them by type
  assertion: the nil interface, a \<^verbatim>\<open>bool\<close>, an \<^verbatim>\<open>int64\<close>, a \<^verbatim>\<open>*abortValueType\<close>
  (\<open>None\<close> the nil pointer), and values of any other type (an \<^verbatim>\<open>int\<close>, a string).
  No arithmetic is done on the integers, only comparisons, so they are modelled as \<open>int\<close>.
\<close>

datatype any =
    NilValue
  | BoolValue bool
  | Int64Value int
  | IntValue int
  | StringValue string
  | AbortValue "abortValueType option"

text \<open>
  A \<open>context\<close> is a non-nil \<^verbatim>\<open>context.Context\<close>. Where the source tests a context against
  nil (\<^verbatim>\<open>isValidContext\<close>, the result of a hook) the model uses \<open>context option\<close>. The other
  functions call \<^verbatim>\<open>ctx.Value\<close> or \<^verbatim>\<open>context.WithValue\<close> on their argument at once; the
  context package requires a non-nil context there, and they are modelled on non-nil
  contexts only.
\<close>

datatype "context" = Background | WithValue "context" key any

fun Value :: "context \<Rightarrow> key \<Rightarrow> any" where
  "Value Background k = NilValue"
| "Value (WithValue parent k' v) k = (if k' = k then v else Value parent k)"

text \<open>The keys that occur on the chain of a context.\<close>

fun keys_of :: "context \<Rightarrow> key set" where
  "keys_of Background = {}"
| "keys_of (WithValue parent k v) = insert k (keys_of parent)"


section \<open>Signal context (part_000, lines 21 to 81)\<close>

definition abortContextKey :: key where
  "abortContextKey = abortContextType"

definition abortDefaultReason :: string where
  "abortDefaultReason = ''Server encounter an error''"

definition StatusInternalServerError :: int where
  "StatusInternalServerError = 500"

text \<open>
  \<^verbatim>\<open>val, ok := ctx.Value(abortContextKey).(*abortValueType)\<close>: the assertion fails on the nil
  interface and on a value of another type; it succeeds on a typed nil pointer, which the
  second test rejects.
\<close>

definition isAborted :: "context \<Rightarrow> bool" where
  "isAborted ctx =
     (case Value ctx abortContextKey of
        AbortValue val \<Rightarrow>
          (case val of
             None \<Rightarrow> False
           | Some v \<Rightarrow> status v \<noteq> 0)
      | _ \<Rightarrow> False)"

definition Abort :: "context \<Rightarrow> context" where
  "Abort ctx =
     WithValue ctx abortContextKey
       (AbortValue (Some \<lparr>status = StatusInternalServerError, reason = abortDefaultReason,
                          redirect = False\<rparr>))"

definition AbortWithStatus :: "context \<Rightarrow> int \<Rightarrow> context" where
  "AbortWithStatus ctx st =
     WithValue ctx abortContextKey
       (AbortValue (Some \<lparr>status = st, reason = abortDefaultReason, redirect = False\<rparr>))"

definition AbortWithStatusReason :: "context \<Rightarrow> int \<Rightarrow> string \<Rightarrow> context" where
  "AbortWithStatusReason ctx st rsn =
     WithValue ctx abortContextKey
       (AbortValue (Some \<lparr>status = st, reason = rsn, redirect = False\<rparr>))"

text \<open>\<^verbatim>\<open>err error\<close> is \<open>None\<close> for nil and \<open>Some msg\<close> for an error whose \<^verbatim>\<open>Error()\<close> is \<open>msg\<close>.\<close>

definition AbortWithError :: "context \<Rightarrow> int \<Rightarrow> string option \<Rightarrow> context" where
  "AbortWithError ctx st err =
     (let rsn = (case err of None \<Rightarrow> '''' | Some msg \<Rightarrow> msg)
      in WithValue ctx abortContextKey
           (AbortValue (Some \<lparr>status = st, reason = rsn, redirect = False\<rparr>)))"

definition Redirect :: "context \<Rightarrow> int \<Rightarrow> string \<Rightarrow> context" where
  "Redirect ctx st path =
     WithValue ctx abortContextKey
       (AbortValue (Some \<lparr>status = st, reason = path, redirect = True\<rparr>))"

text \<open>The abort signal present on a context, if any: what the response layer reads.\<close>

definition abort_signal :: "context \<Rightarrow> abortValueType option" where
  "abort_signal ctx =
     (case Value ctx abortContextKey of AbortValue (Some v) \<Rightarrow> Some v | _ \<Rightarrow> None)"


section \<open>Startup token and hook registry (part_000, lines 83 to 178)\<close>

definition startupContextKey :: key where
  "startupContextKey = startupContextType"

text \<open>
  \<^verbatim>\<open>isValidContext(ctx, ts...)\<close>. The variadic \<^verbatim>\<open>ts\<close> is a list, of which only the first
  element is read.
\<close>

definition isValidContext :: "context option \<Rightarrow> int list \<Rightarrow> bool" where
  "isValidContext ctx ts =
     (case ctx of
        None \<Rightarrow> False
      | Some c \<Rightarrow>
          (let val = Value c startupContextKey in
           if val = NilValue then False
           else (case val of
                   Int64Value start \<Rightarrow>
                     if start \<le> 0 then False
                     else if (case ts of [] \<Rightarrow> False | t0 # _ \<Rightarrow> start \<noteq> t0) then False
                     else True
                 | _ \<Rightarrow> False)))"

text \<open>
  Modelled from the spec: the declaration of \<^verbatim>\<open>ContextHook\<close> is not among the sources.
  The loops below call a hook on a context and pass its result to \<^verbatim>\<open>isValidContext\<close>;
  the spec describes a hook as a pure function from context to context that may return
  an invalid context. \<open>None\<close> is a nil result.
\<close>

type_synonym ContextHook = "context \<Rightarrow> context option"

text \<open>
  The two registries \<^verbatim>\<open>gBaseHooks\<close> and \<^verbatim>\<open>gConnHooks\<close> are the mutable state of the
  package; \<^verbatim>\<open>Add\<close> appends one hook, \<^verbatim>\<open>AddBaseHooks\<close> and \<^verbatim>\<open>AddConnHooks\<close> add their
  arguments from left to right. The locks are not modelled: every function here runs the
  whole of its critical section in one step.
\<close>

record registry =
  gBaseHooks :: "ContextHook list"
  gConnHooks :: "ContextHook list"

definition contextHooks_Add :: "ContextHook list \<Rightarrow> ContextHook \<Rightarrow> ContextHook list" where
  "contextHooks_Add hooks hook = hooks @ [hook]"

fun AddBaseHooks :: "ContextHook list \<Rightarrow> registry \<Rightarrow> registry" where
  "AddBaseHooks [] reg = reg"
| "AddBaseHooks (hook # hooks) reg =
     AddBaseHooks hooks (reg\<lparr>gBaseHooks := contextHooks_Add (gBaseHooks reg) hook\<rparr>)"

fun AddConnHooks :: "ContextHook list \<Rightarrow> registry \<Rightarrow> registry" where
  "AddConnHooks [] reg = reg"
| "AddConnHooks (hook # hooks) reg =
     AddConnHooks hooks (reg\<lparr>gConnHooks := contextHooks_Add (gConnHooks reg) hook\<rparr>)"

text \<open>
  The two closures of \<^verbatim>\<open>ListenAndServe\<close>. \<open>startTime\<close> is \<^verbatim>\<open>time.Now().Unix()\<close>, read
  once before both are built; \<open>hooks\<close> is the content of \<^verbatim>\<open>gBaseHooks.hooks\<close>
  (\<^verbatim>\<open>gConnHooks.hooks\<close>) at the call, which the lock keeps fixed during the loop. The second
  component of the state collects the warnings written with \<^verbatim>\<open>slog.WarnContext\<close>.
  In the last branch the candidate has passed \<^verbatim>\<open>isValidContext\<close>, so it is not nil.
\<close>

fun baseContext_loop ::
  "int \<Rightarrow> ContextHook list \<Rightarrow> context \<times> string list \<Rightarrow> context \<times> string list" where
  "baseContext_loop startTime [] (ctx, warnings) = (ctx, warnings)"
| "baseContext_loop startTime (fn # fns) (ctx, warnings) =
     (let fnCtx = fn ctx in
      if \<not> isValidContext fnCtx [startTime]
      then baseContext_loop startTime fns
             (ctx, warnings @ [''base hook returns invalid context''])
      else baseContext_loop startTime fns
             (case fnCtx of Some c \<Rightarrow> c | None \<Rightarrow> ctx, warnings))"

definition baseContext :: "int \<Rightarrow> ContextHook list \<Rightarrow> context \<times> string list" where
  "baseContext startTime hooks =
     baseContext_loop startTime hooks
       (WithValue Background startupContextKey (Int64Value startTime), [])"

fun connContext_loop ::
  "int \<Rightarrow> ContextHook list \<Rightarrow> context \<times> string list \<Rightarrow> context \<times> string list" where
  "connContext_loop startTime [] (ctx, warnings) = (ctx, warnings)"
| "connContext_loop startTime (fn # fns) (ctx, warnings) =
     (let fnCtx = fn ctx in
      if \<not> isValidContext fnCtx [startTime]
      then connContext_loop startTime fns
             (ctx, warnings @ [''connection hook returns invalid context''])
      else connContext_loop startTime fns
             (case fnCtx of Some c \<Rightarrow> c | None \<Rightarrow> ctx, warnings))"

definition connContext :: "int \<Rightarrow> ContextHook list \<Rightarrow> context \<Rightarrow> context \<times> string list" where
  "connContext startTime hooks ctx = connContext_loop startTime hooks (ctx, [])"

text \<open>
  The step of the fold as the specification words it: the candidate of the hook becomes
  the accumulator when it passes validation against the startup timestamp, and the prior
  accumulator is kept otherwise.
\<close>

definition spec_hook_step :: "int \<Rightarrow> context \<Rightarrow> ContextHook \<Rightarrow> context" where
  "spec_hook_step startTime acc hook =
     (case hook acc of
        None \<Rightarrow> acc
      | Some candidate \<Rightarrow>
          if isValidContext (Some candidate) [startTime] then candidate else acc)"


section \<open>Feature flags (http.go, lines 14 to 58)\<close>

text \<open>
  \<^verbatim>\<open>ctxMetricKey\<close>, \<^verbatim>\<open>ctxTraceKey\<close> and \<^verbatim>\<open>ctxLogKey\<close> are three variables of the one
  empty struct type \<^verbatim>\<open>ctxKeyType\<close>. Converted to the \<^verbatim>\<open>any\<close> that \<^verbatim>\<open>context.WithValue\<close>
  and \<^verbatim>\<open>Value\<close> take, each is the value \<^verbatim>\<open>ctxKeyType{}\<close>.
\<close>

definition ctxMetricKey :: key where
  "ctxMetricKey = ctxKeyType"

definition ctxTraceKey :: key where
  "ctxTraceKey = ctxKeyType"

definition ctxLogKey :: key where
  "ctxLogKey = ctxKeyType"

definition EnableMetric :: "context \<Rightarrow> context" where
  "EnableMetric ctx = WithValue ctx ctxMetricKey (BoolValue True)"

definition DisableMetric :: "context \<Rightarrow> context" where
  "DisableMetric ctx = WithValue ctx ctxMetricKey (BoolValue False)"

definition EnableTrace :: "context \<Rightarrow> context" where
  "EnableTrace ctx = WithValue ctx ctxTraceKey (BoolValue True)"

definition DisableTrace :: "context \<Rightarrow> context" where
  "DisableTrace ctx = WithValue ctx ctxTraceKey (BoolValue False)"

definition hasEnabledTrace :: "context \<Rightarrow> bool" where
  "hasEnabledTrace ctx =
     (let val = Value ctx ctxTraceKey in
      if val = NilValue then False
      else (case val of BoolValue b \<Rightarrow> b | _ \<Rightarrow> False))"

definition EnableLog :: "context \<Rightarrow> context" where
  "EnableLog ctx = WithValue ctx ctxLogKey (BoolValue True)"

definition DisableLog :: "context \<Rightarrow> context" where
  "DisableLog ctx = WithValue ctx ctxLogKey (BoolValue False)"


section \<open>Requests, responses and headers\<close>

text \<open>
  What the package reads of \<^verbatim>\<open>net/http\<close>. A \<^verbatim>\<open>http.Header\<close> is a Go map from header
  names to lists of values; as a map it may be nil (\<open>None\<close>): reading a nil map finds
  nothing, assigning to one panics. \<^verbatim>\<open>Request.URL\<close> is a pointer and may be nil; reading
  a field through a nil pointer panics.
\<close>

datatype panic = NilPointerDereference | NilMapAssignment

type_synonym header = "(string \<rightharpoonup> string list) option"

record url =
  Path :: string

record request =
  Method :: string
  Host :: string
  URL :: "url option"
  Header :: header

text \<open>The field \<^verbatim>\<open>Header\<close> of a response is \<open>ResHeader\<close>, apart from the request's.\<close>

record response =
  StatusCode :: int
  ResHeader :: header
  Request :: "request option"

text \<open>
  \<^verbatim>\<open>textproto.CanonicalMIMEHeaderKey\<close>: a name made of header token bytes only has the
  first letter and every letter after a hyphen in upper case and the others in lower case;
  any other name is returned as it is.
\<close>

definition validHeaderFieldByte :: "char \<Rightarrow> bool" where
  "validHeaderFieldByte c =
     (c \<in> set ''!#$%&*+-.^_`|~0123456789''
      \<or> c = CHR 0x27
      \<or> (65 \<le> (of_char c :: nat) \<and> (of_char c :: nat) \<le> 90)
      \<or> (97 \<le> (of_char c :: nat) \<and> (of_char c :: nat) \<le> 122))"

fun canonicalBytes :: "bool \<Rightarrow> string \<Rightarrow> string" where
  "canonicalBytes upper [] = []"
| "canonicalBytes upper (c # cs) =
     (let n = (of_char c :: nat);
          c' = (if upper \<and> 97 \<le> n \<and> n \<le> 122 then char_of (n - 32)
                else if \<not> upper \<and> 65 \<le> n \<and> n \<le> 90 then char_of (n + 32)
                else c)
      in c' # canonicalBytes (c' = CHR ''-'') cs)"

definition CanonicalMIMEHeaderKey :: "string \<Rightarrow> string" where
  "CanonicalMIMEHeaderKey s =
     (if list_all validHeaderFieldByte s then canonicalBytes True s else s)"

text \<open>\<^verbatim>\<open>Header.Get\<close>: the first value stored under the canonical name, or the empty string.\<close>

definition Header_Get :: "header \<Rightarrow> string \<Rightarrow> string" where
  "Header_Get h k =
     (case h of
        None \<Rightarrow> []
      | Some m \<Rightarrow>
          (case m (CanonicalMIMEHeaderKey k) of
             None \<Rightarrow> []
           | Some [] \<Rightarrow> []
           | Some (v # _) \<Rightarrow> v))"

text \<open>\<^verbatim>\<open>Header.Set\<close>: replaces the values stored under the canonical name by the one value.\<close>

definition Header_Set :: "header \<Rightarrow> string \<Rightarrow> string \<Rightarrow> panic + header" where
  "Header_Set h k v =
     (case h of
        None \<Rightarrow> Inl NilMapAssignment
      | Some m \<Rightarrow> Inr (Some (m(CanonicalMIMEHeaderKey k \<mapsto> [v]))))"

definition TraceparentHeader :: string where
  "TraceparentHeader = ''traceparent''"

definition TracestateHeader :: string where
  "TracestateHeader = ''tracestate''"


section \<open>Metric labels (http.go, lines 69 to 87)\<close>

text \<open>
  \<^verbatim>\<open>strconv.Itoa\<close> and \<^verbatim>\<open>strconv.FormatInt(_, 10)\<close>: the decimal digits, after a minus sign
  for a negative number.
\<close>

function decimal :: "nat \<Rightarrow> string" where
  "decimal n =
     (if n < 10 then [char_of (48 + n)]
      else decimal (n div 10) @ [char_of (48 + n mod 10)])"
  by pat_completeness auto
termination
  by (relation "measure id") auto

declare decimal.simps [simp del]

definition Itoa :: "int \<Rightarrow> string" where
  "Itoa i = (if i < 0 then CHR ''-'' # decimal (nat (- i)) else decimal (nat i))"

definition FormatInt10 :: "int \<Rightarrow> string" where
  "FormatInt10 i = Itoa i"

text \<open>The number a string of decimal digits denotes, to state what \<open>decimal\<close> writes.\<close>

definition decimal_value :: "string \<Rightarrow> nat" where
  "decimal_value s = foldl (\<lambda>a c. 10 * a + (of_char c - 48)) 0 s"

text \<open>
  A \<^verbatim>\<open>time.Duration\<close> is a count of nanoseconds; \<^verbatim>\<open>Milliseconds\<close> divides it by \<open>10\<^sup>6\<close>
  with Go's integer division, which truncates toward zero. The quotient is smaller in
  absolute value than the \<^verbatim>\<open>int64\<close> it comes from, so nothing wraps around and the count is
  modelled as \<open>int\<close>.
\<close>

definition Milliseconds :: "int \<Rightarrow> int" where
  "Milliseconds d = (if d < 0 then - ((- d) div 1000000) else d div 1000000)"

text \<open>
  \<^verbatim>\<open>metricLabels\<close>. A nil slice is \<open>None\<close>. \<^verbatim>\<open>requestLabels\<close>, declared outside the
  sources, gives only the capacity of the slice. \<^verbatim>\<open>req.URL.Path\<close> reads through the
  pointer \<^verbatim>\<open>req.URL\<close>.
\<close>

definition metricLabels ::
  "request option \<Rightarrow> response option \<Rightarrow> int \<Rightarrow> panic + string list option" where
  "metricLabels req res dur =
     (let req1 = (case (req, res) of (None, Some rs) \<Rightarrow> Request rs | _ \<Rightarrow> req) in
      case req1 of
        None \<Rightarrow> Inr None
      | Some r \<Rightarrow>
          (let statusCode = (case res of Some rs \<Rightarrow> StatusCode rs | None \<Rightarrow> 0) in
           case URL r of
             None \<Rightarrow> Inl NilPointerDereference
           | Some u \<Rightarrow>
               Inr (Some [Method r, Host r, Path u, Itoa statusCode,
                          FormatInt10 (Milliseconds dur)])))"


section \<open>Outbound calls and trace merging (http.go, lines 89 to 153)\<close>

text \<open>
  The functions of package \<^verbatim>\<open>solu\<close>, another repository, are parameters of the model.
  \<^verbatim>\<open>ParseTraceparent\<close> returns the trace identifier, the span identifier and an error
  (\<open>None\<close> for nil).
\<close>

type_synonym error = "string option"

record solu =
  TraceparentValue :: "context \<Rightarrow> string"
  ParseTraceparent :: "string \<Rightarrow> string \<times> string \<times> error"
  TraceID :: "context \<Rightarrow> string"
  SpanID :: "context \<Rightarrow> string"
  TraceWith :: "context \<Rightarrow> string \<Rightarrow> context"
  SpanWith :: "context \<Rightarrow> string \<Rightarrow> context"

text \<open>
  A \<^verbatim>\<open>*http.Client\<close> is \<open>None\<close> when nil; otherwise \<^verbatim>\<open>client.Do\<close> is a function from the
  request to the response and error it returns.
\<close>

type_synonym client = "request \<Rightarrow> response option \<times> error"

text \<open>
  What a call leaves behind: the returned response and error, the request object as it is
  after the call (\<^verbatim>\<open>req.Header.Set\<close> writes into the caller's request), and the requests
  handed to \<^verbatim>\<open>client.Do\<close>.
\<close>

record outcome =
  res_of :: "response option"
  err_of :: error
  req_after :: "request option"
  sent :: "request list"

definition doWithClient ::
  "solu \<Rightarrow> context \<Rightarrow> request option \<Rightarrow> client option \<Rightarrow> panic + outcome" where
  "doWithClient S ctx req cl =
     (case req of
        None \<Rightarrow> Inr \<lparr>res_of = None, err_of = Some ''invalid request'', req_after = None,
                     sent = []\<rparr>
      | Some r \<Rightarrow>
          (case cl of
             None \<Rightarrow> Inr \<lparr>res_of = None, err_of = Some ''invalid client'',
                          req_after = Some r, sent = []\<rparr>
           | Some do_call \<Rightarrow>
               (case (if hasEnabledTrace ctx
                      then (if Header_Get (Header r) TraceparentHeader = []
                            then (case Header_Set (Header r) TraceparentHeader
                                         (TraceparentValue S ctx) of
                                    Inl p \<Rightarrow> Inl p
                                  | Inr h \<Rightarrow> Inr (r\<lparr>Header := h\<rparr>))
                            else Inr r)
                      else Inr r) of
                  Inl p \<Rightarrow> Inl p
                | Inr r1 \<Rightarrow>
                    (case do_call r1 of
                       (rs, e) \<Rightarrow> Inr \<lparr>res_of = rs, err_of = e, req_after = Some r1,
                                        sent = [r1]\<rparr>))))"

text \<open>\<open>DefaultClient\<close> is the value of the variable \<^verbatim>\<open>http.DefaultClient\<close> at the call.\<close>

definition Do ::
  "solu \<Rightarrow> client option \<Rightarrow> context \<Rightarrow> request option \<Rightarrow> panic + outcome" where
  "Do S DefaultClient ctx req = doWithClient S ctx req DefaultClient"

definition DoClient ::
  "solu \<Rightarrow> context \<Rightarrow> request option \<Rightarrow> client option \<Rightarrow> panic + outcome" where
  "DoClient S ctx req cl = doWithClient S ctx req cl"

definition mergeTrace :: "solu \<Rightarrow> context \<Rightarrow> response option \<Rightarrow> context" where
  "mergeTrace S ctx res =
     (case res of
        None \<Rightarrow> ctx
      | Some rs \<Rightarrow>
          (let header = Header_Get (ResHeader rs) TraceparentHeader in
           if header = [] then ctx
           else (case ParseTraceparent S header of
                   (tid, sid, err) \<Rightarrow>
                     if err \<noteq> None then ctx
                     else (let ctx1 = (if TraceID S ctx = [] then TraceWith S ctx tid
                                       else ctx);
                               ctx2 = (if SpanID S ctx1 = [] then SpanWith S ctx1 sid
                                       else ctx1)
                           in ctx2))))"

definition InheritTrace :: "solu \<Rightarrow> response option \<Rightarrow> context" where
  "InheritTrace S res = mergeTrace S Background res"

definition FulfillTrace :: "solu \<Rightarrow> context \<Rightarrow> response option \<Rightarrow> context" where
  "FulfillTrace S ctx res = mergeTrace S ctx res"


section \<open>A tracing collaborator for concrete runs\<close>

text \<open>
  An instance of the parameters above, used where a theorem is run on concrete values:
  the identifiers are string attachments under two keys of their own, and a header
  \<open>version-trace-span-flags\<close> parses into its two middle fields.
\<close>

fun split_on :: "char \<Rightarrow> string \<Rightarrow> string list" where
  "split_on d [] = [[]]"
| "split_on d (c # cs) =
     (if c = d then [] # split_on d cs
      else (case split_on d cs of w # ws \<Rightarrow> (c # w) # ws | [] \<Rightarrow> [[c]]))"

definition string_of :: "any \<Rightarrow> string" where
  "string_of v = (case v of StringValue s \<Rightarrow> s | _ \<Rightarrow> [])"

definition example_solu :: solu where
  "example_solu =
     \<lparr>TraceparentValue =
        (\<lambda>ctx. ''00-'' @ string_of (Value ctx (ForeignKey 0)) @ ''-''
                @ string_of (Value ctx (ForeignKey 1)) @ ''-01''),
      ParseTraceparent =
        (\<lambda>h. case split_on CHR ''-'' h of
                [v, t, s, f] \<Rightarrow> (t, s, None)
              | _ \<Rightarrow> ([], [], Some ''invalid traceparent'')),
      TraceID = (\<lambda>ctx. string_of (Value ctx (ForeignKey 0))),
      SpanID = (\<lambda>ctx. string_of (Value ctx (ForeignKey 1))),
      TraceWith = (\<lambda>ctx t. WithValue ctx (ForeignKey 0) (StringValue t)),
      SpanWith = (\<lambda>ctx s. WithValue ctx (ForeignKey 1) (StringValue s))\<rparr>"


section \<open>The abort signal\<close>

lemma Value_fresh: "k \<notin> keys_of ctx \<Longrightarrow> Value ctx k = NilValue"
  by (induction ctx) auto

lemma isAborted_signal: "isAborted ctx = (\<exists>v. abort_signal ctx = Some v \<and> status v \<noteq> 0)"
  by (simp add: isAborted_def abort_signal_def split: any.splits option.splits)

text \<open>
  Claim C3. \<open>isAborted ctx\<close> holds exactly when an abort signal is present on \<open>ctx\<close> and its
  status is not zero. It is false on a context whose chain has no link under the abort key
  (no \<^verbatim>\<open>Abort*\<close> constructor and no \<^verbatim>\<open>Redirect\<close> was called on it), and for every status
  \<open>s\<close> and reason \<open>r\<close>, \<open>isAborted (AbortWithStatusReason ctx s r)\<close> is \<open>s \<noteq> 0\<close>.
\<close>

theorem isAborted_iff:
  "isAborted ctx = (\<exists>v. abort_signal ctx = Some v \<and> status v \<noteq> 0)
   \<and> (abortContextKey \<notin> keys_of ctx \<longrightarrow> \<not> isAborted ctx)
   \<and> isAborted (AbortWithStatusReason ctx s r) = (s \<noteq> 0)"
proof (intro conjI impI)
  show "isAborted ctx = (\<exists>v. abort_signal ctx = Some v \<and> status v \<noteq> 0)"
    by (rule isAborted_signal)
  show "\<not> isAborted ctx" if "abortContextKey \<notin> keys_of ctx"
    using that by (simp add: isAborted_def Value_fresh)
  show "isAborted (AbortWithStatusReason ctx s r) = (s \<noteq> 0)"
    by (simp add: isAborted_def AbortWithStatusReason_def)
qed

theorem isAborted_iff_witness:
  "abortContextKey \<notin> keys_of (WithValue Background ctxKeyType (BoolValue True))
   \<and> \<not> isAborted (WithValue Background ctxKeyType (BoolValue True))
   \<and> isAborted (AbortWithStatusReason (WithValue Background ctxKeyType (BoolValue True)) 404 ''gone'')
   \<and> \<not> isAborted (AbortWithStatusReason (WithValue Background ctxKeyType (BoolValue True)) 0 ''gone'')"
  using isAborted_iff [of "WithValue Background ctxKeyType (BoolValue True)" 404 "''gone''"]
    isAborted_iff [of "WithValue Background ctxKeyType (BoolValue True)" 0 "''gone''"]
  by (simp add: abortContextKey_def)

text \<open>
  Claim C9. For every context \<open>ctx\<close>, status \<open>s\<close> and path \<open>p\<close>, \<open>Redirect ctx s p\<close> carries an
  abort signal whose status is \<open>s\<close>, whose reason is \<open>p\<close> and whose redirect field is true;
  \<open>Redirect ctx 302 ''/x''\<close> carries the signal with reason \<open>''/x''\<close> and redirect true.
\<close>

theorem Redirect_signal:
  "abort_signal (Redirect ctx s p) = Some \<lparr>status = s, reason = p, redirect = True\<rparr>
   \<and> (\<exists>v. abort_signal (Redirect ctx 302 ''/x'') = Some v \<and> redirect v \<and> reason v = ''/x'')"
  by (simp add: abort_signal_def Redirect_def)


section \<open>The hook folds\<close>

lemma isValidContext_None: "isValidContext None ts = False"
  by (simp add: isValidContext_def)

lemma baseContext_loop_fold:
  "fst (baseContext_loop T hooks (ctx, w)) = foldl (spec_hook_step T) ctx hooks"
  by (induction hooks arbitrary: ctx w)
     (auto simp: spec_hook_step_def Let_def isValidContext_None split: option.splits)

lemma connContext_loop_fold:
  "fst (connContext_loop T hooks (ctx, w)) = foldl (spec_hook_step T) ctx hooks"
  by (induction hooks arbitrary: ctx w)
     (auto simp: spec_hook_step_def Let_def isValidContext_None split: option.splits)

lemma AddBaseHooks_appends:
  "gBaseHooks (AddBaseHooks hs reg) = gBaseHooks reg @ hs
   \<and> gConnHooks (AddBaseHooks hs reg) = gConnHooks reg"
  by (induction hs arbitrary: reg) (simp_all add: contextHooks_Add_def)

lemma AddConnHooks_appends:
  "gConnHooks (AddConnHooks hs reg) = gConnHooks reg @ hs
   \<and> gBaseHooks (AddConnHooks hs reg) = gBaseHooks reg"
  by (induction hs arbitrary: reg) (simp_all add: contextHooks_Add_def)

text \<open>
  Claim C1. \<open>AddBaseHooks\<close> and \<open>AddConnHooks\<close> append to their registry, so a registry
  lists the hooks in the order of registration. Base-context and connection-context
  construction are left folds over that list, in its order: the base fold starts from a fresh root
  context stamped with the startup token, the connection fold from the context it is given,
  and each step adopts the hook's candidate when it passes \<open>isValidContext\<close> against the
  startup timestamp and keeps the accumulator otherwise. When the three candidates of
  \<open>[ha, hb, hc]\<close> are valid the result is \<open>hc (hb (ha initial))\<close>; when a candidate is
  invalid the output of that step is its input.
\<close>

theorem hooks_left_fold:
  "gBaseHooks (AddBaseHooks hs reg) = gBaseHooks reg @ hs
   \<and> gConnHooks (AddConnHooks hs reg) = gConnHooks reg @ hs
   \<and> fst (baseContext T hooks)
     = foldl (spec_hook_step T) (WithValue Background startupContextKey (Int64Value T)) hooks
   \<and> fst (connContext T hooks ctx) = foldl (spec_hook_step T) ctx hooks
   \<and> (ha ctx = Some ca \<and> isValidContext (Some ca) [T]
        \<and> hb ca = Some cb \<and> isValidContext (Some cb) [T]
        \<and> hc cb = Some cc \<and> isValidContext (Some cc) [T]
       \<longrightarrow> fst (connContext T [ha, hb, hc] ctx) = cc)
   \<and> (ha (WithValue Background startupContextKey (Int64Value T)) = Some ba
        \<and> isValidContext (Some ba) [T]
        \<and> hb ba = Some bb \<and> isValidContext (Some bb) [T]
        \<and> hc bb = Some bc \<and> isValidContext (Some bc) [T]
       \<longrightarrow> fst (baseContext T [ha, hb, hc]) = bc)
   \<and> (\<not> isValidContext (h ctx) [T]
       \<longrightarrow> spec_hook_step T ctx h = ctx
           \<and> fst (connContext T [h] ctx) = ctx
           \<and> fst (baseContext_loop T [h] (ctx, [])) = ctx)"
proof (intro conjI impI)
  show "gBaseHooks (AddBaseHooks hs reg) = gBaseHooks reg @ hs"
    by (simp add: AddBaseHooks_appends)
  show "gConnHooks (AddConnHooks hs reg) = gConnHooks reg @ hs"
    by (simp add: AddConnHooks_appends)
  show "fst (baseContext T hooks)
     = foldl (spec_hook_step T) (WithValue Background startupContextKey (Int64Value T)) hooks"
    by (simp add: baseContext_def baseContext_loop_fold)
  show "fst (connContext T hooks ctx) = foldl (spec_hook_step T) ctx hooks"
    by (simp add: connContext_def connContext_loop_fold)
  show "fst (connContext T [ha, hb, hc] ctx) = cc"
    if "ha ctx = Some ca \<and> isValidContext (Some ca) [T]
        \<and> hb ca = Some cb \<and> isValidContext (Some cb) [T]
        \<and> hc cb = Some cc \<and> isValidContext (Some cc) [T]"
    using that by (simp add: connContext_def)
  show "fst (baseContext T [ha, hb, hc]) = bc"
    if "ha (WithValue Background startupContextKey (Int64Value T)) = Some ba
        \<and> isValidContext (Some ba) [T]
        \<and> hb ba = Some bb \<and> isValidContext (Some bb) [T]
        \<and> hc bb = Some bc \<and> isValidContext (Some bc) [T]"
    using that by (simp add: baseContext_def)
  assume inv: "\<not> isValidContext (h ctx) [T]"
  show "spec_hook_step T ctx h = ctx"
    using inv by (auto simp: spec_hook_step_def split: option.splits)
  show "fst (connContext T [h] ctx) = ctx"
    using inv by (simp add: connContext_def)
  show "fst (baseContext_loop T [h] (ctx, [])) = ctx"
    using inv by simp
qed

theorem hooks_left_fold_witness:
  "isValidContext (Some (WithValue (WithValue Background startupContextKey (Int64Value 5))
                           (ForeignKey 1) (StringValue ''a''))) [5]
   \<and> isValidContext (Some (EnableTrace (WithValue (WithValue Background startupContextKey
                           (Int64Value 5)) (ForeignKey 1) (StringValue ''a'')))) [5]
   \<and> isValidContext (Some (Abort (EnableTrace (WithValue (WithValue Background
                           startupContextKey (Int64Value 5)) (ForeignKey 1)
                           (StringValue ''a''))))) [5]
   \<and> fst (connContext 5
            [\<lambda>c. Some (WithValue c (ForeignKey 1) (StringValue ''a'')),
             \<lambda>c. Some (EnableTrace c), \<lambda>c. Some (Abort c)]
            (WithValue Background startupContextKey (Int64Value 5)))
       = Abort (EnableTrace (WithValue (WithValue Background startupContextKey (Int64Value 5))
                  (ForeignKey 1) (StringValue ''a'')))
   \<and> fst (baseContext 5
            [\<lambda>c. Some (WithValue c (ForeignKey 1) (StringValue ''a'')),
             \<lambda>c. Some (EnableTrace c), \<lambda>c. Some (Abort c)])
       = Abort (EnableTrace (WithValue (WithValue Background startupContextKey (Int64Value 5))
                  (ForeignKey 1) (StringValue ''a'')))
   \<and> \<not> isValidContext ((\<lambda>c. Some Background)
                          (WithValue Background startupContextKey (Int64Value 5))) [5]
   \<and> fst (connContext 5 [\<lambda>c. Some Background]
            (WithValue Background startupContextKey (Int64Value 5)))
       = WithValue Background startupContextKey (Int64Value 5)
   \<and> gConnHooks (AddConnHooks [\<lambda>c. None, Some] \<lparr>gBaseHooks = [], gConnHooks = [Some]\<rparr>)
       = [Some, \<lambda>c. None, Some]
   \<and> gBaseHooks (AddBaseHooks [\<lambda>c. None, Some] \<lparr>gBaseHooks = [], gConnHooks = [Some]\<rparr>)
       = [\<lambda>c. None, Some]"
  using hooks_left_fold
    [where T = 5 and hooks = "[]" and hs = "[\<lambda>c. None, Some]"
       and reg = "\<lparr>gBaseHooks = [], gConnHooks = [Some]\<rparr>"
       and ctx = "WithValue Background startupContextKey (Int64Value 5)"
       and ha = "\<lambda>c. Some (WithValue c (ForeignKey 1) (StringValue ''a''))"
       and hb = "\<lambda>c. Some (EnableTrace c)"
       and hc = "\<lambda>c. Some (Abort c)"
       and ca = "WithValue (WithValue Background startupContextKey (Int64Value 5))
                   (ForeignKey 1) (StringValue ''a'')"
       and cb = "EnableTrace (WithValue (WithValue Background startupContextKey (Int64Value 5))
                   (ForeignKey 1) (StringValue ''a''))"
       and cc = "Abort (EnableTrace (WithValue (WithValue Background startupContextKey
                   (Int64Value 5)) (ForeignKey 1) (StringValue ''a'')))"
       and ba = "WithValue (WithValue Background startupContextKey (Int64Value 5))
                   (ForeignKey 1) (StringValue ''a'')"
       and bb = "EnableTrace (WithValue (WithValue Background startupContextKey (Int64Value 5))
                   (ForeignKey 1) (StringValue ''a''))"
       and bc = "Abort (EnableTrace (WithValue (WithValue Background startupContextKey
                   (Int64Value 5)) (ForeignKey 1) (StringValue ''a'')))"
       and h = "\<lambda>c. Some Background"]
  by (simp add: isValidContext_def startupContextKey_def EnableTrace_def Abort_def
        ctxTraceKey_def abortContextKey_def)


section \<open>The feature flags\<close>

lemma hasEnabledTrace_reads_ctxKeyType:
  "hasEnabledTrace ctx = (Value ctx ctxKeyType = BoolValue True)"
  by (cases "Value ctx ctxKeyType") (simp_all add: hasEnabledTrace_def ctxTraceKey_def)

lemma hasEnabledTrace_after_trace_flag:
  "hasEnabledTrace (EnableTrace ctx) \<and> \<not> hasEnabledTrace (DisableTrace ctx)"
  by (simp add: hasEnabledTrace_def EnableTrace_def DisableTrace_def)

lemma hasEnabledTrace_no_flag:
  "ctxKeyType \<notin> keys_of ctx \<Longrightarrow> \<not> hasEnabledTrace ctx"
  by (simp add: hasEnabledTrace_def ctxTraceKey_def Value_fresh)

text \<open>
  Claim C2 (the flags are independent) does not hold of the code: the three flag keys are
  equal as context keys, so the metric and log flags are read as the trace flag.
  \<open>hasEnabledTrace\<close> is true after \<open>EnableMetric\<close> or \<open>EnableLog\<close> alone, on a context
  on which no trace flag was attached, and false after \<open>DisableLog\<close> or \<open>DisableMetric\<close>
  on a context on which tracing was enabled.
\<close>

theorem hasEnabledTrace_key_collision:
  "hasEnabledTrace (EnableMetric Background)
   \<and> hasEnabledTrace (EnableLog Background)
   \<and> \<not> hasEnabledTrace (DisableLog (EnableTrace Background))
   \<and> \<not> hasEnabledTrace (DisableMetric (EnableTrace Background))
   \<and> ctxMetricKey = ctxTraceKey \<and> ctxLogKey = ctxTraceKey"
  by (simp add: hasEnabledTrace_def EnableMetric_def EnableLog_def DisableLog_def
        DisableMetric_def EnableTrace_def ctxMetricKey_def ctxTraceKey_def ctxLogKey_def)


section \<open>Validation against the startup token\<close>

text \<open>
  Claim C5. \<open>isValidContext ctx ts\<close> is false exactly when \<open>ctx\<close> is nil, or no value is
  stored under the startup key, or the stored value is not a positive \<^verbatim>\<open>int64\<close>, or an
  expected timestamp is supplied (\<open>ts\<close> is not empty) and the stored value is not equal to
  the first one; in every other case it is true.
\<close>

theorem isValidContext_false_iff:
  "(\<not> isValidContext ctx ts) =
     (ctx = None
      \<or> (\<exists>c. ctx = Some c
            \<and> (Value c startupContextKey = NilValue
                \<or> (\<forall>n. Value c startupContextKey = Int64Value n \<longrightarrow> n \<le> 0)
                \<or> (\<exists>t rest. ts = t # rest \<and> Value c startupContextKey \<noteq> Int64Value t))))"
  by (cases ctx; cases ts)
     (auto simp: isValidContext_def Let_def split: any.splits)

theorem isValidContext_false_iff_witness:
  "\<not> isValidContext (Some (WithValue Background startupContextKey (Int64Value 0))) []
   \<and> \<not> isValidContext (Some (WithValue Background startupContextKey (IntValue 7))) []
   \<and> \<not> isValidContext (Some (WithValue Background startupContextKey (Int64Value 7))) [8]
   \<and> isValidContext (Some (WithValue Background startupContextKey (Int64Value 7))) [7, 8]
   \<and> isValidContext (Some (WithValue Background startupContextKey (Int64Value 7))) []"
  using isValidContext_false_iff
      [of "Some (WithValue Background startupContextKey (Int64Value 0))" "[]"]
    isValidContext_false_iff
      [of "Some (WithValue Background startupContextKey (IntValue 7))" "[]"]
    isValidContext_false_iff
      [of "Some (WithValue Background startupContextKey (Int64Value 7))" "[8]"]
    isValidContext_false_iff
      [of "Some (WithValue Background startupContextKey (Int64Value 7))" "[7, 8]"]
    isValidContext_false_iff
      [of "Some (WithValue Background startupContextKey (Int64Value 7))" "[]"]
  by simp


section \<open>Metric labels\<close>

lemma decimal_value_decimal: "decimal_value (decimal n) = n"
proof (induction n rule: decimal.induct)
  case (1 n)
  show ?case
  proof (cases "n < 10")
    case True
    then show ?thesis
      by (subst decimal.simps) (simp add: decimal_value_def)
  next
    case False
    have "decimal_value (decimal n) = 10 * decimal_value (decimal (n div 10)) + n mod 10"
      using False by (subst decimal.simps) (simp add: decimal_value_def)
    with False "1.IH" show ?thesis by simp
  qed
qed

lemma Milliseconds_truncates:
  "\<bar>Milliseconds d\<bar> * 1000000 \<le> \<bar>d\<bar>
   \<and> \<bar>d\<bar> < (\<bar>Milliseconds d\<bar> + 1) * 1000000
   \<and> (0 \<le> d \<longrightarrow> 0 \<le> Milliseconds d) \<and> (d \<le> 0 \<longrightarrow> Milliseconds d \<le> 0)"
  unfolding Milliseconds_def by (cases "d < 0") auto

lemma decimal_200: "decimal 200 = ''200''"
  by code_simp

lemma decimal_150: "decimal 150 = ''150''"
  by code_simp

lemma decimal_0: "decimal 0 = ''0''"
  by code_simp

lemma Itoa_0: "Itoa 0 = ''0''"
  by (simp add: Itoa_def decimal_0)

text \<open>
  Claim C8 says that \<open>metricLabels\<close> never fails once a request is found. On a request
  whose \<^verbatim>\<open>URL\<close> is nil the read of \<^verbatim>\<open>req.URL.Path\<close> panics.
\<close>

theorem metricLabels_nil_URL_counterexample:
  "metricLabels
     (Some \<lparr>Method = ''GET'', Host = ''example.com'', URL = None, Header = Some Map.empty\<rparr>)
     (Some \<lparr>StatusCode = 200, ResHeader = Some Map.empty, Request = None\<rparr>)
     150000000
   = Inl NilPointerDereference"
  by (simp add: metricLabels_def)

text \<open>
  Claim C8, amended. \<open>metricLabels\<close> returns nil when the request is nil and the response
  is nil or has no originating request. Otherwise, with \<open>r\<close> the request argument or, when
  that is nil, the response's originating request, and provided the \<^verbatim>\<open>URL\<close> of \<open>r\<close> is not
  nil, it returns the five labels method, host, URL path, status code in decimal (0 for a
  nil response) and duration in whole milliseconds in decimal. For the request
  \<open>GET example.com /p\<close>, status 200 and 150 ms it returns
  \<open>[GET, example.com, /p, 200, 150]\<close>.
\<close>

theorem metricLabels_labels:
  "(req = None \<and> (res = None \<or> (\<exists>rs. res = Some rs \<and> Request rs = None))
      \<longrightarrow> metricLabels req res dur = Inr None)
   \<and> ((req = Some r \<or> (req = None \<and> (\<exists>rs. res = Some rs \<and> Request rs = Some r)))
        \<and> URL r = Some u
      \<longrightarrow> metricLabels req res dur
          = Inr (Some [Method r, Host r, Path u,
                       Itoa (case res of None \<Rightarrow> 0 | Some rs \<Rightarrow> StatusCode rs),
                       FormatInt10 (Milliseconds dur)]))
   \<and> metricLabels
        (Some \<lparr>Method = ''GET'', Host = ''example.com'', URL = Some \<lparr>Path = ''/p''\<rparr>,
               Header = h\<rparr>)
        (Some \<lparr>StatusCode = 200, ResHeader = h', Request = rq\<rparr>)
        150000000
      = Inr (Some [''GET'', ''example.com'', ''/p'', ''200'', ''150''])"
  by (auto simp: metricLabels_def Itoa_def FormatInt10_def Milliseconds_def
        decimal_200 decimal_150 split: option.splits)

theorem metricLabels_labels_witness:
  "metricLabels None None 5 = Inr None
   \<and> metricLabels None (Some \<lparr>StatusCode = 404, ResHeader = None, Request = None\<rparr>) 5
       = Inr None
   \<and> metricLabels None
        (Some \<lparr>StatusCode = 200, ResHeader = None,
               Request = Some \<lparr>Method = ''GET'', Host = ''example.com'',
                                URL = Some \<lparr>Path = ''/p''\<rparr>, Header = None\<rparr>\<rparr>)
        150999999
       = Inr (Some [''GET'', ''example.com'', ''/p'', ''200'', ''150''])"
  using metricLabels_labels [where req = None and res = None and dur = 5]
    metricLabels_labels
      [where req = None
         and res = "Some \<lparr>StatusCode = 404, ResHeader = None, Request = None\<rparr>"
         and dur = 5]
    metricLabels_labels
      [where req = None
         and res = "Some \<lparr>StatusCode = 200, ResHeader = None,
               Request = Some \<lparr>Method = ''GET'', Host = ''example.com'',
                                URL = Some \<lparr>Path = ''/p''\<rparr>, Header = None\<rparr>\<rparr>"
         and r = "\<lparr>Method = ''GET'', Host = ''example.com'',
                                URL = Some \<lparr>Path = ''/p''\<rparr>, Header = None\<rparr>"
         and u = "\<lparr>Path = ''/p''\<rparr>"
         and dur = 150999999]
  by (simp add: Itoa_def FormatInt10_def Milliseconds_def decimal_200 decimal_150)

text \<open>
  Claim C10 says that a non-nil request with a nil response always gives the five labels.
  It does not when the \<^verbatim>\<open>URL\<close> of the request is nil.
\<close>

theorem metricLabels_nil_response_counterexample:
  "metricLabels (Some \<lparr>Method = ''POST'', Host = ''localhost'', URL = None, Header = None\<rparr>)
     None 0
   = Inl NilPointerDereference"
  by (simp add: metricLabels_def)

text \<open>
  Claim C10, amended. For a non-nil request whose \<^verbatim>\<open>URL\<close> is not nil and a nil response,
  \<open>metricLabels\<close> returns the five labels, the status label being \<open>0\<close> and the other
  four computed from the request and the duration.
\<close>

theorem metricLabels_nil_response:
  "URL r = Some u \<Longrightarrow>
   metricLabels (Some r) None dur
     = Inr (Some [Method r, Host r, Path u, ''0'', FormatInt10 (Milliseconds dur)])"
  by (simp add: metricLabels_def Itoa_0)

theorem metricLabels_nil_response_witness:
  "URL \<lparr>Method = ''POST'', Host = ''localhost'', URL = Some \<lparr>Path = ''/q''\<rparr>, Header = None\<rparr>
     = Some \<lparr>Path = ''/q''\<rparr>
   \<and> metricLabels
        (Some \<lparr>Method = ''POST'', Host = ''localhost'', URL = Some \<lparr>Path = ''/q''\<rparr>,
               Header = None\<rparr>) None 150000000
     = Inr (Some [''POST'', ''localhost'', ''/q'', ''0'', ''150''])"
  using metricLabels_nil_response
    [of "\<lparr>Method = ''POST'', Host = ''localhost'', URL = Some \<lparr>Path = ''/q''\<rparr>,
          Header = None\<rparr>" "\<lparr>Path = ''/q''\<rparr>" 150000000]
  by (simp add: FormatInt10_def Itoa_def Milliseconds_def decimal_150)


section \<open>Outbound calls\<close>

lemma canonical_traceparent: "CanonicalMIMEHeaderKey TraceparentHeader = ''Traceparent''"
  by code_simp

text \<open>
  Claim C6. \<open>Do\<close> on a nil request returns a nil response and the error
  \<open>invalid request\<close>; \<open>DoClient\<close> returns a nil response and an error on a nil request
  (\<open>invalid request\<close>) and on a nil client (\<open>invalid client\<close> when the request is not
  nil); in each of these cases nothing is handed to the client.
\<close>

theorem Do_invalid_arguments:
  "Do S dc ctx None
     = Inr \<lparr>res_of = None, err_of = Some ''invalid request'', req_after = None, sent = []\<rparr>
   \<and> DoClient S ctx None cl
     = Inr \<lparr>res_of = None, err_of = Some ''invalid request'', req_after = None, sent = []\<rparr>
   \<and> DoClient S ctx (Some r) None
     = Inr \<lparr>res_of = None, err_of = Some ''invalid client'', req_after = Some r, sent = []\<rparr>
   \<and> (\<exists>out. DoClient S ctx req None = Inr out
          \<and> res_of out = None \<and> err_of out \<noteq> None \<and> sent out = [])"
  by (cases req) (simp_all add: Do_def DoClient_def doWithClient_def)


lemma doWithClient_injects:
  "hasEnabledTrace ctx \<Longrightarrow> Header_Get (Header r) TraceparentHeader = [] \<Longrightarrow>
   Header r = Some m \<Longrightarrow> do_call (r\<lparr>Header := Some (m(''Traceparent'' \<mapsto> [TraceparentValue S ctx]))\<rparr>) = (rs, e) \<Longrightarrow>
   doWithClient S ctx (Some r) (Some do_call)
     = Inr \<lparr>res_of = rs, err_of = e,
            req_after = Some (r\<lparr>Header := Some (m(''Traceparent'' \<mapsto> [TraceparentValue S ctx]))\<rparr>),
            sent = [r\<lparr>Header := Some (m(''Traceparent'' \<mapsto> [TraceparentValue S ctx]))\<rparr>]\<rparr>"
  by (simp add: doWithClient_def Header_Set_def canonical_traceparent)

lemma doWithClient_nil_header_panics:
  "hasEnabledTrace ctx \<Longrightarrow> Header r = None \<Longrightarrow>
   doWithClient S ctx (Some r) (Some do_call) = Inl NilMapAssignment"
  by (simp add: doWithClient_def Header_Set_def Header_Get_def)



section \<open>Trace merging\<close>

text \<open>
  Claim C4. For a tracing collaborator whose trace and span identifiers are two separate
  attachments (setting one is read back and leaves the other), \<open>mergeTrace\<close> returns the
  context unchanged when the response is nil, when the traceparent header is absent and
  when it does not parse. When it parses, the trace identifier is set only if the context
  has none, the span identifier is set only if the context has none, each whatever the
  other, and an identifier that is not empty is kept.
\<close>

theorem mergeTrace_merges:
  assumes span_kept: "\<And>c t. SpanID S (TraceWith S c t) = SpanID S c"
    and trace_kept: "\<And>c s. TraceID S (SpanWith S c s) = TraceID S c"
    and trace_set: "\<And>c t. TraceID S (TraceWith S c t) = t"
    and span_set: "\<And>c s. SpanID S (SpanWith S c s) = s"
  shows "mergeTrace S ctx None = ctx
   \<and> (Header_Get (ResHeader rs) TraceparentHeader = [] \<longrightarrow> mergeTrace S ctx (Some rs) = ctx)
   \<and> (snd (snd (ParseTraceparent S (Header_Get (ResHeader rs) TraceparentHeader))) \<noteq> None
        \<longrightarrow> mergeTrace S ctx (Some rs) = ctx)
   \<and> (Header_Get (ResHeader rs) TraceparentHeader \<noteq> []
        \<and> ParseTraceparent S (Header_Get (ResHeader rs) TraceparentHeader) = (tid, sid, None)
        \<longrightarrow> mergeTrace S ctx (Some rs)
              = (if TraceID S ctx = []
                 then (if SpanID S ctx = [] then SpanWith S (TraceWith S ctx tid) sid
                       else TraceWith S ctx tid)
                 else (if SpanID S ctx = [] then SpanWith S ctx sid else ctx))
            \<and> TraceID S (mergeTrace S ctx (Some rs))
              = (if TraceID S ctx = [] then tid else TraceID S ctx)
            \<and> SpanID S (mergeTrace S ctx (Some rs))
              = (if SpanID S ctx = [] then sid else SpanID S ctx))"
proof (intro conjI impI)
  show "mergeTrace S ctx None = ctx"
    by (simp add: mergeTrace_def)
  show "mergeTrace S ctx (Some rs) = ctx"
    if "Header_Get (ResHeader rs) TraceparentHeader = []"
    using that by (simp add: mergeTrace_def)
  show "mergeTrace S ctx (Some rs) = ctx"
    if "snd (snd (ParseTraceparent S (Header_Get (ResHeader rs) TraceparentHeader))) \<noteq> None"
    using that by (auto simp: mergeTrace_def Let_def split: prod.splits)
  assume ok: "Header_Get (ResHeader rs) TraceparentHeader \<noteq> []
        \<and> ParseTraceparent S (Header_Get (ResHeader rs) TraceparentHeader) = (tid, sid, None)"
  show shape: "mergeTrace S ctx (Some rs)
              = (if TraceID S ctx = []
                 then (if SpanID S ctx = [] then SpanWith S (TraceWith S ctx tid) sid
                       else TraceWith S ctx tid)
                 else (if SpanID S ctx = [] then SpanWith S ctx sid else ctx))"
    using ok by (simp add: mergeTrace_def Let_def span_kept)
  show "TraceID S (mergeTrace S ctx (Some rs))
              = (if TraceID S ctx = [] then tid else TraceID S ctx)"
    by (simp add: shape trace_kept trace_set)
  show "SpanID S (mergeTrace S ctx (Some rs))
              = (if SpanID S ctx = [] then sid else SpanID S ctx)"
    by (simp add: shape span_kept span_set)
qed

lemma split_example: "split_on CHR ''-'' ''00-B-S-01'' = [''00'', ''B'', ''S'', ''01'']"
  by simp

theorem mergeTrace_merges_witness:
  "TraceID example_solu
     (mergeTrace example_solu (WithValue Background (ForeignKey 0) (StringValue ''A''))
        (Some \<lparr>StatusCode = 200, ResHeader = Some [''Traceparent'' \<mapsto> [''00-B-S-01'']],
               Request = None\<rparr>)) = ''A''
   \<and> SpanID example_solu
     (mergeTrace example_solu (WithValue Background (ForeignKey 0) (StringValue ''A''))
        (Some \<lparr>StatusCode = 200, ResHeader = Some [''Traceparent'' \<mapsto> [''00-B-S-01'']],
               Request = None\<rparr>)) = ''S''
   \<and> TraceID example_solu
     (mergeTrace example_solu Background
        (Some \<lparr>StatusCode = 200, ResHeader = Some [''Traceparent'' \<mapsto> [''00-B-S-01'']],
               Request = None\<rparr>)) = ''B''
   \<and> mergeTrace example_solu (WithValue Background (ForeignKey 0) (StringValue ''A''))
        (Some \<lparr>StatusCode = 200, ResHeader = Some [''Traceparent'' \<mapsto> [''garbage'']],
               Request = None\<rparr>)
      = WithValue Background (ForeignKey 0) (StringValue ''A'')
   \<and> mergeTrace example_solu (WithValue Background (ForeignKey 0) (StringValue ''A''))
        (Some \<lparr>StatusCode = 200, ResHeader = Some Map.empty, Request = None\<rparr>)
      = WithValue Background (ForeignKey 0) (StringValue ''A'')"
proof -
  let ?rs = "\<lparr>StatusCode = 200, ResHeader = Some [''Traceparent'' \<mapsto> [''00-B-S-01'']],
              Request = None\<rparr>"
  let ?bad = "\<lparr>StatusCode = 200, ResHeader = Some [''Traceparent'' \<mapsto> [''garbage'']],
              Request = None\<rparr>"
  let ?none = "\<lparr>StatusCode = 200, ResHeader = Some Map.empty, Request = None :: request option\<rparr>"
  let ?A = "WithValue Background (ForeignKey 0) (StringValue ''A'')"
  have l1: "\<And>c t. SpanID example_solu (TraceWith example_solu c t) = SpanID example_solu c"
    by (simp add: example_solu_def)
  have l2: "\<And>c s. TraceID example_solu (SpanWith example_solu c s) = TraceID example_solu c"
    by (simp add: example_solu_def)
  have l3: "\<And>c t. TraceID example_solu (TraceWith example_solu c t) = t"
    by (simp add: example_solu_def string_of_def)
  have l4: "\<And>c s. SpanID example_solu (SpanWith example_solu c s) = s"
    by (simp add: example_solu_def string_of_def)
  have get: "Header_Get (ResHeader ?rs) TraceparentHeader = ''00-B-S-01''"
    by (simp add: Header_Get_def canonical_traceparent)
  have parse: "ParseTraceparent example_solu ''00-B-S-01'' = (''B'', ''S'', None)"
    by (simp add: example_solu_def)
  have getbad: "Header_Get (ResHeader ?bad) TraceparentHeader = ''garbage''"
    by (simp add: Header_Get_def canonical_traceparent)
  have parsebad: "snd (snd (ParseTraceparent example_solu ''garbage'')) \<noteq> None"
    by (simp add: example_solu_def)
  have getnone: "Header_Get (ResHeader ?none) TraceparentHeader = []"
    by (simp add: Header_Get_def)
  have ids: "TraceID example_solu ?A = ''A''" "SpanID example_solu ?A = []"
    "TraceID example_solu Background = []" "SpanID example_solu Background = []"
    by (simp_all add: example_solu_def string_of_def)
  show ?thesis
    using mergeTrace_merges [OF l1 l2 l3 l4, where ctx = ?A and rs = ?rs
                               and tid = "''B''" and sid = "''S''"]
      mergeTrace_merges [OF l1 l2 l3 l4, where ctx = Background and rs = ?rs
                               and tid = "''B''" and sid = "''S''"]
      mergeTrace_merges [OF l1 l2 l3 l4, where ctx = ?A and rs = ?bad
                               and tid = "''B''" and sid = "''S''"]
      mergeTrace_merges [OF l1 l2 l3 l4, where ctx = ?A and rs = ?none
                               and tid = "''B''" and sid = "''S''"]
      get parse getbad parsebad getnone ids
    by (simp add: l1 l2 l3 l4)
qed

end
